theory Spec2Isabelle
  imports Complex_Main
begin

section \<open>The listener\_info document validator\<close>

text \<open>
  A shallow embedding of \<^verbatim>\<open>couchdb/_design/listener_info/validate_doc_update.js\<close>: the
  function \<^verbatim>\<open>function(newDoc, oldDoc, userCtx)\<close> that the database calls before it
  accepts a write. The function either returns (the write is accepted) or throws.
\<close>

subsection \<open>Values\<close>

text \<open>
  The three arguments are JSON data handed over by the database, so a value is one of the
  JSON kinds, or \<^verbatim>\<open>undefined\<close> (what reading an absent property gives). A number is
  represented by the real number it denotes: a JSON document holds neither NaN nor an
  infinity, and on the other doubles \<^verbatim>\<open>>=\<close> and the test for zero agree with the
  reals. An object is the list of its own properties; a read takes the first binding of a
  name.
\<close>

datatype jsval =
    JUndefined
  | JNull
  | JBool bool
  | JNum real
  | JStr string
  | JArr "jsval list"
  | JObj "(string \<times> jsval) list"

text \<open>
  What the function can throw: the two objects it builds itself,
  \<^verbatim>\<open>{unauthorized: msg}\<close> and \<^verbatim>\<open>{forbidden: msg}\<close>, and the \<^verbatim>\<open>TypeError\<close> of the
  language (a property read on \<^verbatim>\<open>null\<close> or \<^verbatim>\<open>undefined\<close>, a call of something that is
  not a function, an object without a primitive value). \<open>NotModelled\<close> marks the one
  place where the embedding stops (\<^verbatim>\<open>>=\<close> on operands that are not both numbers);
  \<open>validate_modelled\<close> below shows that no run gets there.
\<close>

datatype thrown =
    Unauthorized string
  | Forbidden string
  | TypeError
  | NotModelled

text \<open>
  The source assigns to \<^verbatim>\<open>message\<close> without declaring it, so the variable lives in the
  global object and outlasts the call. The global state is threaded through the model.
\<close>

record globals =
  message :: jsval

type_synonym 'a result = "(thrown + 'a) \<times> globals"

subsection \<open>The operators of the language that the function uses\<close>

text \<open>\<^verbatim>\<open>if (v)\<close>, \<^verbatim>\<open>!v\<close>, \<^verbatim>\<open>v && ...\<close>: the truth value of \<open>v\<close>.\<close>

fun truthy :: "jsval \<Rightarrow> bool" where
  "truthy JUndefined = False"
| "truthy JNull = False"
| "truthy (JBool b) = b"
| "truthy (JNum n) = (n \<noteq> 0)"
| "truthy (JStr s) = (s \<noteq> [])"
| "truthy (JArr xs) = True"
| "truthy (JObj kvs) = True"

text \<open>\<^verbatim>\<open>typeof(v)\<close>.\<close>

fun typeof :: "jsval \<Rightarrow> string" where
  "typeof JUndefined = ''undefined''"
| "typeof JNull = ''object''"
| "typeof (JBool b) = ''boolean''"
| "typeof (JNum n) = ''number''"
| "typeof (JStr s) = ''string''"
| "typeof (JArr xs) = ''object''"
| "typeof (JObj kvs) = ''object''"

text \<open>
  \<^verbatim>\<open>v[field]\<close> and \<^verbatim>\<open>v.field\<close>. Reading a property of \<^verbatim>\<open>undefined\<close> or \<^verbatim>\<open>null\<close>
  throws; an object gives its own property, or \<^verbatim>\<open>undefined\<close>. The names the validator
  reads (\<^verbatim>\<open>type\<close>, \<^verbatim>\<open>roles\<close>, \<^verbatim>\<open>time_created\<close>, \<^verbatim>\<open>time_uploaded\<close>, \<^verbatim>\<open>data\<close>,
  \<^verbatim>\<open>callsign\<close>) are neither array indices nor \<^verbatim>\<open>length\<close> nor inherited from a
  prototype, so on an array or a primitive value they read as \<^verbatim>\<open>undefined\<close>. The model
  covers such names only.
\<close>

fun get_prop :: "jsval \<Rightarrow> string \<Rightarrow> thrown + jsval" where
  "get_prop JUndefined f = Inl TypeError"
| "get_prop JNull f = Inl TypeError"
| "get_prop (JObj kvs) f = Inr (case map_of kvs f of None \<Rightarrow> JUndefined | Some v \<Rightarrow> v)"
| "get_prop v f = Inr JUndefined"

text \<open>
  The string of a value, as \<^verbatim>\<open>==\<close> needs it for an object or an array operand. An
  array is joined with commas, \<^verbatim>\<open>undefined\<close> and \<^verbatim>\<open>null\<close> elements giving the empty
  string. An object gives \<^verbatim>\<open>[object Object]\<close> through the inherited \<^verbatim>\<open>toString\<close>; an own
  property of that name hides it and, being data, cannot be called, which leaves the object
  without a primitive value. The digits of a number are the host's business: \<open>nts\<close> is
  its number-to-string function.
\<close>

fun js_to_string :: "(real \<Rightarrow> string) \<Rightarrow> jsval \<Rightarrow> thrown + string"
and js_join :: "(real \<Rightarrow> string) \<Rightarrow> jsval list \<Rightarrow> thrown + string"
where
  "js_to_string nts JUndefined = Inr ''undefined''"
| "js_to_string nts JNull = Inr ''null''"
| "js_to_string nts (JBool b) = Inr (if b then ''true'' else ''false'')"
| "js_to_string nts (JNum n) = Inr (nts n)"
| "js_to_string nts (JStr s) = Inr s"
| "js_to_string nts (JArr xs) = js_join nts xs"
| "js_to_string nts (JObj kvs) =
     (if map_of kvs ''toString'' = None then Inr ''[object Object]'' else Inl TypeError)"
| "js_join nts [] = Inr []"
| "js_join nts (x # xs) =
     (case (if x = JUndefined \<or> x = JNull then Inr [] else js_to_string nts x) of
        Inl e \<Rightarrow> Inl e
      | Inr s \<Rightarrow>
          (if xs = [] then Inr s
           else (case js_join nts xs of Inl e \<Rightarrow> Inl e | Inr r \<Rightarrow> Inr (s @ '','' @ r))))"

text \<open>
  \<^verbatim>\<open>v != "listener_info"\<close>, the loose inequality against this literal. A string is
  compared as a string. \<^verbatim>\<open>undefined\<close> and \<^verbatim>\<open>null\<close> equal only each other. A number or
  a boolean is compared with the number of the literal, which is NaN, so it differs. An
  array or an object is compared through its string.
\<close>

fun loose_ne_listener_info :: "(real \<Rightarrow> string) \<Rightarrow> jsval \<Rightarrow> thrown + bool" where
  "loose_ne_listener_info nts (JStr s) = Inr (s \<noteq> ''listener_info'')"
| "loose_ne_listener_info nts JUndefined = Inr True"
| "loose_ne_listener_info nts JNull = Inr True"
| "loose_ne_listener_info nts (JBool b) = Inr True"
| "loose_ne_listener_info nts (JNum n) = Inr True"
| "loose_ne_listener_info nts v =
     (case js_to_string nts v of Inl e \<Rightarrow> Inl e | Inr s \<Rightarrow> Inr (s \<noteq> ''listener_info''))"

text \<open>
  \<^verbatim>\<open>roles.indexOf(role)\<close> for a string \<open>role\<close>. On an array it is the first index whose
  element is strictly equal to \<open>role\<close>, that is, is that very string; on a string it is
  the first position where \<open>role\<close> occurs as a substring; \<open>-1\<close> when there is none.
  No other value has an \<^verbatim>\<open>indexOf\<close> to call.
\<close>

fun array_indexOf :: "jsval list \<Rightarrow> string \<Rightarrow> int" where
  "array_indexOf [] role = -1"
| "array_indexOf (x # xs) role =
     (if x = JStr role then 0
      else (let i = array_indexOf xs role in if i < 0 then -1 else i + 1))"

fun is_prefix :: "string \<Rightarrow> string \<Rightarrow> bool" where
  "is_prefix [] s = True"
| "is_prefix (c # cs) [] = False"
| "is_prefix (c # cs) (d # ds) = (c = d \<and> is_prefix cs ds)"

fun string_indexOf :: "string \<Rightarrow> string \<Rightarrow> int" where
  "string_indexOf [] role = (if role = [] then 0 else -1)"
| "string_indexOf (c # cs) role =
     (if is_prefix role (c # cs) then 0
      else (let i = string_indexOf cs role in if i < 0 then -1 else i + 1))"

fun indexOf :: "jsval \<Rightarrow> string \<Rightarrow> thrown + int" where
  "indexOf (JArr xs) role = Inr (array_indexOf xs role)"
| "indexOf (JStr s) role = Inr (string_indexOf s role)"
| "indexOf v role = Inl TypeError"

subsection \<open>The validator\<close>

text \<open>
  \<^verbatim>\<open>function user_is(role) { return userCtx.roles.indexOf(role) >= 0; }\<close>
\<close>

definition user_is :: "jsval \<Rightarrow> string \<Rightarrow> thrown + bool" where
  "user_is userCtx role =
     (case get_prop userCtx ''roles'' of
        Inl e \<Rightarrow> Inl e
      | Inr roles \<Rightarrow>
          (case indexOf roles role of Inl e \<Rightarrow> Inl e | Inr i \<Rightarrow> Inr (i \<ge> 0)))"

text \<open>
  \<^verbatim>\<open>function required(field, type, inside=newDoc)\<close>. The default applies when the third
  argument is \<^verbatim>\<open>undefined\<close>. \<open>type\<close> is a string whenever the function is called; the
  empty string is the falsy one, and then the type is not checked. Both failures store the
  text in the global \<^verbatim>\<open>message\<close> before they throw it.
\<close>

definition required :: "jsval \<Rightarrow> string \<Rightarrow> string \<Rightarrow> jsval \<Rightarrow> globals \<Rightarrow> unit result" where
  "required newDoc field type inside g =
     (let target = (if inside = JUndefined then newDoc else inside) in
      case get_prop target field of
        Inl e \<Rightarrow> (Inl e, g)
      | Inr v \<Rightarrow>
          if \<not> truthy v then
            (let m = ''Must have a `'' @ field @ ''` field.'' in
             (Inl (Forbidden m), g\<lparr>message := JStr m\<rparr>))
          else if type \<noteq> [] \<and> typeof v \<noteq> type then
            (let m1 = ''Wrong type for `'' @ field @ ''` ('';
                 m2 = m1 @ typeof v @ ''), should be '' @ type @ ''.'' in
             (Inl (Forbidden m2), g\<lparr>message := JStr m2\<rparr>))
          else (Inr (), g))"

text \<open>Statements in sequence: a throw ends the run, otherwise the next one starts.\<close>

definition and_then :: "unit result \<Rightarrow> (globals \<Rightarrow> unit result) \<Rightarrow> unit result" where
  "and_then r k = (case r of (Inl e, g) \<Rightarrow> (Inl e, g) | (Inr u, g) \<Rightarrow> k g)"

text \<open>
  \<^verbatim>\<open>if(newDoc['time_created'] >= newDoc['time_uploaded']) throw({forbidden: ...})\<close>
\<close>

definition check_order :: "jsval \<Rightarrow> globals \<Rightarrow> unit result" where
  "check_order newDoc g =
     (case (get_prop newDoc ''time_created'', get_prop newDoc ''time_uploaded'') of
        (Inr (JNum a), Inr (JNum b)) \<Rightarrow>
          if a \<ge> b then (Inl (Forbidden ''Document creation date is after upload date.''), g)
          else (Inr (), g)
      | (Inl e, _) \<Rightarrow> (Inl e, g)
      | (_, Inl e) \<Rightarrow> (Inl e, g)
      | _ \<Rightarrow> (Inl NotModelled, g))"

text \<open>
  The second half of the function, from the first call of \<^verbatim>\<open>required\<close> to the end.
  The last call passes \<^verbatim>\<open>newDoc['data']\<close> as \<^verbatim>\<open>inside\<close>.
\<close>

definition field_checks :: "jsval \<Rightarrow> globals \<Rightarrow> unit result" where
  "field_checks newDoc g =
     and_then (required newDoc ''time_created'' ''number'' JUndefined g) (\<lambda>g.
     and_then (required newDoc ''time_uploaded'' ''number'' JUndefined g) (\<lambda>g.
     and_then (check_order newDoc g) (\<lambda>g.
     and_then (required newDoc ''data'' ''object'' JUndefined g) (\<lambda>g.
     case get_prop newDoc ''data'' of
       Inl e \<Rightarrow> (Inl e, g)
     | Inr d \<Rightarrow> required newDoc ''callsign'' ''string'' d g))))"

text \<open>
  The whole function: the gate on \<^verbatim>\<open>newDoc.type\<close>, then
  \<^verbatim>\<open>if(oldDoc && !user_is('admin')) throw({unauthorized: ...})\<close>, where \<^verbatim>\<open>&&\<close> calls
  \<^verbatim>\<open>user_is\<close> only for a truthy \<open>oldDoc\<close>, then the field checks.
\<close>

definition validate :: "(real \<Rightarrow> string) \<Rightarrow> jsval \<Rightarrow> jsval \<Rightarrow> jsval \<Rightarrow> globals \<Rightarrow> unit result" where
  "validate nts newDoc oldDoc userCtx g =
     (case get_prop newDoc ''type'' of
        Inl e \<Rightarrow> (Inl e, g)
      | Inr t \<Rightarrow>
          (case loose_ne_listener_info nts t of
             Inl e \<Rightarrow> (Inl e, g)
           | Inr True \<Rightarrow> (Inr (), g)
           | Inr False \<Rightarrow>
               (case (if truthy oldDoc
                      then (case user_is userCtx ''admin'' of
                              Inl e \<Rightarrow> Inl e | Inr b \<Rightarrow> Inr (\<not> b))
                      else Inr False) of
                  Inl e \<Rightarrow> (Inl e, g)
                | Inr True \<Rightarrow>
                    (Inl (Unauthorized ''Only administrators may edit listener_info docs.''), g)
                | Inr False \<Rightarrow> field_checks newDoc g)))"

subsection \<open>Fixed inputs for the closed examples\<close>

text \<open>
  The closed examples below need a host. None of them prints a number, so a
  number-to-string function that always answers \<^verbatim>\<open>0\<close> serves; the global
  \<^verbatim>\<open>message\<close> starts out undefined.
\<close>

definition example_nts :: "real \<Rightarrow> string" where
  "example_nts n = ''0''"

definition fresh_globals :: globals where
  "fresh_globals = \<lparr>message = JUndefined\<rparr>"

text \<open>Scenario 1 of the specification, and the requester contexts of scenarios 3 and 4.\<close>

definition good_doc :: jsval where
  "good_doc = JObj [(''type'', JStr ''listener_info''), (''time_created'', JNum 100),
                    (''time_uploaded'', JNum 200),
                    (''data'', JObj [(''callsign'', JStr ''G0ABC'')])]"

definition plain_user :: jsval where
  "plain_user = JObj [(''roles'', JArr [JStr ''user''])]"

definition admin_user :: jsval where
  "admin_user = JObj [(''roles'', JArr [JStr ''admin'', JStr ''user''])]"

definition bare_doc :: jsval where
  "bare_doc = JObj [(''type'', JStr ''listener_info'')]"

text \<open>Scenarios 2 and 5, and documents that are wrong in other ways.\<close>

definition late_doc :: jsval where
  "late_doc = JObj [(''type'', JStr ''listener_info''), (''time_created'', JNum 200),
                    (''time_uploaded'', JNum 100),
                    (''data'', JObj [(''callsign'', JStr ''G0ABC'')])]"


definition muddled_doc :: jsval where
  "muddled_doc = JObj [(''type'', JStr ''listener_info''), (''time_created'', JStr ''noon''),
                       (''time_uploaded'', JNum 0), (''data'', JNum 7)]"

definition array_typed_doc :: jsval where
  "array_typed_doc = JObj [(''type'', JArr [JStr ''listener_info''])]"

definition other_doc :: jsval where
  "other_doc = JObj [(''type'', JStr ''other_type''), (''time_created'', JBool True),
                     (''data'', JNull)]"


definition string_roles_user :: jsval where
  "string_roles_user = JObj [(''roles'', JStr ''admin'')]"

definition no_roles_user :: jsval where
  "no_roles_user = JObj [(''name'', JStr ''alice'')]"

section \<open>Properties\<close>

subsection \<open>Auxiliary facts\<close>

lemmas run_defs =
  validate_def field_checks_def required_def check_order_def user_is_def Let_def


lemma and_then_Inl [simp]: "and_then (Inl e, g) k = (Inl e, g)"
  by (simp add: and_then_def)

lemma and_then_Inr [simp]: "and_then (Inr u, g) k = k g"
  by (simp add: and_then_def)

lemma array_indexOf_nonneg: "0 \<le> array_indexOf xs role \<longleftrightarrow> JStr role \<in> set xs"
  by (induction xs) (auto simp: Let_def)

lemma get_prop_total:
  assumes "get_prop v f = Inr x"
  obtains y where "get_prop v f' = Inr y"
  using assms by (cases v) auto

lemma get_prop_error:
  "get_prop v f = Inl e \<longleftrightarrow> e = TypeError \<and> (v = JUndefined \<or> v = JNull)"
  by (cases v) auto

lemma truthy_readable: "truthy d \<Longrightarrow> \<exists>c. get_prop d f = Inr c"
  by (cases d) auto


lemma typeof_number: "typeof v = ''number'' \<longleftrightarrow> (\<exists>n. v = JNum n)"
  by (cases v) auto

lemma typeof_string: "typeof v = ''string'' \<longleftrightarrow> (\<exists>s. v = JStr s)"
  by (cases v) auto



lemma indexOf_error:
  "indexOf r role = Inl e \<longleftrightarrow> e = TypeError \<and> (\<forall>xs. r \<noteq> JArr xs) \<and> (\<forall>s. r \<noteq> JStr s)"
  by (cases r) auto

lemma user_is_error:
  "user_is userCtx role = Inl e \<longleftrightarrow>
     e = TypeError \<and>
     (case get_prop userCtx ''roles'' of
        Inl e' \<Rightarrow> True | Inr (JArr xs) \<Rightarrow> False | Inr (JStr s) \<Rightarrow> False | Inr r \<Rightarrow> True)"
  by (auto simp: user_is_def get_prop_error indexOf_error split: sum.splits jsval.splits)

text \<open>What one call of \<open>required\<close> gives, by the value of the field.\<close>

lemma required_value:
  assumes "get_prop (if inside = JUndefined then newDoc else inside) field = Inr v"
  shows "required newDoc field type inside g =
     (if \<not> truthy v then
        (Inl (Forbidden (''Must have a `'' @ field @ ''` field.'')),
         g\<lparr>message := JStr (''Must have a `'' @ field @ ''` field.'')\<rparr>)
      else if type \<noteq> [] \<and> typeof v \<noteq> type then
        (Inl (Forbidden (''Wrong type for `'' @ field @ ''` ('' @ typeof v
                          @ ''), should be '' @ type @ ''.'')),
         g\<lparr>message := JStr (''Wrong type for `'' @ field @ ''` ('' @ typeof v
                          @ ''), should be '' @ type @ ''.'')\<rparr>)
      else (Inr (), g))"
  using assms by (simp add: required_def Let_def)

lemma required_not_order:
  "fst (required newDoc field type inside g) \<noteq>
     Inl (Forbidden ''Document creation date is after upload date.'')"
  by (auto simp: required_def Let_def get_prop_error split: sum.splits)

lemma required_fst_globals:
  "fst (required newDoc field type inside g) = fst (required newDoc field type inside g')"
  by (auto simp: required_def Let_def split: sum.splits)

lemma check_order_numbers:
  assumes "get_prop newDoc ''time_created'' = Inr (JNum a)"
    and "get_prop newDoc ''time_uploaded'' = Inr (JNum b)"
  shows "check_order newDoc g =
     (if a \<ge> b then (Inl (Forbidden ''Document creation date is after upload date.''), g)
      else (Inr (), g))"
  using assms by (simp add: check_order_def)

lemma check_order_fst_globals:
  "fst (check_order newDoc g) = fst (check_order newDoc g')"
  by (auto simp: check_order_def split: sum.splits jsval.splits)

text \<open>The two ways past the first line of the function.\<close>

lemma validate_gate_closed:
  assumes "get_prop newDoc ''type'' = Inr t" and "loose_ne_listener_info nts t = Inr True"
  shows "validate nts newDoc oldDoc userCtx g = (Inr (), g)"
  using assms by (simp add: validate_def)

lemma validate_past_gate:
  assumes "get_prop newDoc ''type'' = Inr t" and "loose_ne_listener_info nts t = Inr False"
  shows "validate nts newDoc oldDoc userCtx g =
     (if truthy oldDoc then
        (case user_is userCtx ''admin'' of
           Inl e \<Rightarrow> (Inl e, g)
         | Inr False \<Rightarrow>
             (Inl (Unauthorized ''Only administrators may edit listener_info docs.''), g)
         | Inr True \<Rightarrow> field_checks newDoc g)
      else field_checks newDoc g)"
  using assms by (simp add: validate_def split: sum.splits bool.splits)

lemma validate_authorized:
  assumes "get_prop newDoc ''type'' = Inr t" and "loose_ne_listener_info nts t = Inr False"
    and "truthy oldDoc \<longrightarrow> user_is userCtx ''admin'' = Inr True"
  shows "validate nts newDoc oldDoc userCtx g = field_checks newDoc g"
  using assms by (simp add: validate_past_gate)

text \<open>
  The field checks as a decision list, for a document whose properties can be read: first
  by the calls that decide, then by the values of the fields.
\<close>

lemma field_checks_null:
  assumes "get_prop newDoc f = Inl e"
  shows "field_checks newDoc g = (Inl TypeError, g)"
proof -
  from assms have "newDoc = JUndefined \<or> newDoc = JNull" by (simp add: get_prop_error)
  then show ?thesis by (auto simp: field_checks_def required_def)
qed

lemma field_checks_unfold:
  assumes "get_prop newDoc ''time_created'' = Inr tc"
    and "get_prop newDoc ''time_uploaded'' = Inr tu"
    and "get_prop newDoc ''data'' = Inr d"
  shows "field_checks newDoc g =
     (if \<not> truthy tc \<or> typeof tc \<noteq> ''number''
        then required newDoc ''time_created'' ''number'' JUndefined g
      else if \<not> truthy tu \<or> typeof tu \<noteq> ''number''
        then required newDoc ''time_uploaded'' ''number'' JUndefined g
      else if fst (check_order newDoc g) \<noteq> Inr ()
        then check_order newDoc g
      else if \<not> truthy d \<or> typeof d \<noteq> ''object''
        then required newDoc ''data'' ''object'' JUndefined g
      else required newDoc ''callsign'' ''string'' d g)"
proof -
  have nn: "newDoc \<noteq> JUndefined" using assms(1) by auto
  note rv = required_value [where inside = JUndefined and newDoc = newDoc, simplified]
  show ?thesis
    using assms nn
    by (auto simp: field_checks_def rv check_order_numbers typeof_number split: if_splits)
qed

lemma field_checks_table:
  assumes "get_prop newDoc ''time_created'' = Inr tc"
    and "get_prop newDoc ''time_uploaded'' = Inr tu"
    and "get_prop newDoc ''data'' = Inr d"
  shows "fst (field_checks newDoc g) =
     (if \<not> truthy tc then Inl (Forbidden ''Must have a `time_created` field.'')
      else if typeof tc \<noteq> ''number'' then
        Inl (Forbidden (''Wrong type for `time_created` ('' @ typeof tc
                         @ ''), should be number.''))
      else if \<not> truthy tu then Inl (Forbidden ''Must have a `time_uploaded` field.'')
      else if typeof tu \<noteq> ''number'' then
        Inl (Forbidden (''Wrong type for `time_uploaded` ('' @ typeof tu
                         @ ''), should be number.''))
      else if (\<exists>a b. tc = JNum a \<and> tu = JNum b \<and> a \<ge> b) then
        Inl (Forbidden ''Document creation date is after upload date.'')
      else if \<not> truthy d then Inl (Forbidden ''Must have a `data` field.'')
      else if typeof d \<noteq> ''object'' then
        Inl (Forbidden (''Wrong type for `data` ('' @ typeof d @ ''), should be object.''))
      else
        (case get_prop d ''callsign'' of
           Inl e \<Rightarrow> Inl e
         | Inr cs \<Rightarrow>
             if \<not> truthy cs then Inl (Forbidden ''Must have a `callsign` field.'')
             else if typeof cs \<noteq> ''string'' then
               Inl (Forbidden (''Wrong type for `callsign` ('' @ typeof cs
                                @ ''), should be string.''))
             else Inr ()))"
proof -
  have nn: "newDoc \<noteq> JUndefined" using assms(1) by auto
  note rv = required_value [where inside = JUndefined and newDoc = newDoc, simplified]
  have last: "truthy d \<Longrightarrow> fst (required newDoc ''callsign'' ''string'' d g) =
        (case get_prop d ''callsign'' of
           Inl e \<Rightarrow> Inl e
         | Inr cs \<Rightarrow>
             if \<not> truthy cs then Inl (Forbidden ''Must have a `callsign` field.'')
             else if typeof cs \<noteq> ''string'' then
               Inl (Forbidden (''Wrong type for `callsign` ('' @ typeof cs
                                @ ''), should be string.''))
             else Inr ())"
    by (cases d) (auto simp: required_def Let_def split: option.splits)
  show ?thesis
    using assms nn last
    by (auto simp: field_checks_unfold rv typeof_number check_order_numbers)
qed

text \<open>What an accepted document of type \<^verbatim>\<open>listener_info\<close> looks like.\<close>

lemma field_checks_accept:
  "fst (field_checks newDoc g) = Inr () \<longleftrightarrow>
     (\<exists>a b d s. get_prop newDoc ''time_created'' = Inr (JNum a) \<and> a \<noteq> 0
        \<and> get_prop newDoc ''time_uploaded'' = Inr (JNum b) \<and> b \<noteq> 0 \<and> a < b
        \<and> get_prop newDoc ''data'' = Inr d \<and> truthy d \<and> typeof d = ''object''
        \<and> get_prop d ''callsign'' = Inr (JStr s) \<and> s \<noteq> [])"
proof (cases "get_prop newDoc ''data''")
  case (Inl e)
  then show ?thesis by (simp add: field_checks_null)
next
  case (Inr d)
  then obtain tc tu where tt: "get_prop newDoc ''time_created'' = Inr tc"
    "get_prop newDoc ''time_uploaded'' = Inr tu"
    by (meson get_prop_total)
  have nn: "newDoc \<noteq> JUndefined" using Inr by auto
  note rv = required_value [where inside = JUndefined and newDoc = newDoc, simplified]
  show ?thesis
  proof (cases "truthy d")
    case False
    then show ?thesis using Inr tt nn
      by (auto simp: field_checks_unfold rv)
  next
    case True
    then obtain c where c: "get_prop d ''callsign'' = Inr c"
      using truthy_readable by blast
    have dn: "d \<noteq> JUndefined" using True by auto
    note rd = required_value [where inside = d and newDoc = newDoc
         and field = "''callsign''" and v = c, simplified dn if_False, OF c]
    show ?thesis using Inr tt nn c True
      by (auto simp: field_checks_unfold rv rd typeof_number typeof_string
          check_order_numbers split: if_splits)
  qed
qed

text \<open>What the field checks can throw.\<close>

lemma field_checks_thrown:
  assumes "get_prop newDoc f = Inr x" and "fst (field_checks newDoc g) = Inl e"
  shows "\<exists>m. e = Forbidden m \<and>
           (m = ''Document creation date is after upload date.''
            \<or> (\<exists>fld \<in> {''time_created'', ''time_uploaded'', ''data'', ''callsign''}.
                  m = ''Must have a `'' @ fld @ ''` field.''
                  \<or> (\<exists>actual expected.
                        m = ''Wrong type for `'' @ fld @ ''` ('' @ actual
                            @ ''), should be '' @ expected @ ''.'')))"
proof -
  define F where "F = {''time_created'', ''time_uploaded'', ''data'', ''callsign''}"
  define P where "P = (\<lambda>m. m = ''Document creation date is after upload date.''
            \<or> (\<exists>fld \<in> F.
                  m = ''Must have a `'' @ fld @ ''` field.''
                  \<or> (\<exists>actual expected.
                        m = ''Wrong type for `'' @ fld @ ''` ('' @ actual
                            @ ''), should be '' @ expected @ ''.'')))"
  have m0: "P ''Document creation date is after upload date.''"
    unfolding P_def by (rule disjI1) (rule refl)
  have m1: "P (''Must have a `'' @ fld @ ''` field.'')" if "fld \<in> F" for fld
    unfolding P_def using that by blast
  have m2: "P (''Wrong type for `'' @ fld @ ''` ('' @ a @ ''), should be '' @ ex @ ''.'')"
    if "fld \<in> F" for fld a ex
    unfolding P_def using that by blast
  have inF: "''time_created'' \<in> F" "''time_uploaded'' \<in> F" "''data'' \<in> F"
    "''callsign'' \<in> F"
    unfolding F_def by simp_all
  note ms = m0 m1 [OF inF(1), simplified] m1 [OF inF(2), simplified]
    m1 [OF inF(3), simplified] m1 [OF inF(4), simplified]
    m2 [OF inF(1), where ex = "''number''", simplified]
    m2 [OF inF(2), where ex = "''number''", simplified]
    m2 [OF inF(3), where ex = "''object''", simplified]
    m2 [OF inF(4), where ex = "''string''", simplified]
  obtain tc tu d where p: "get_prop newDoc ''time_created'' = Inr tc"
    "get_prop newDoc ''time_uploaded'' = Inr tu" "get_prop newDoc ''data'' = Inr d"
    using assms(1) by (meson get_prop_total)
  have "\<exists>m. e = Forbidden m \<and> P m"
  proof (cases "truthy d")
    case False
    then show ?thesis
      using assms(2) ms unfolding field_checks_table [OF p]
      by (simp split: if_splits) blast+
  next
    case True
    then obtain c where "get_prop d ''callsign'' = Inr c"
      using truthy_readable by blast
    then show ?thesis
      using assms(2) ms unfolding field_checks_table [OF p]
      by (simp split: if_splits) blast+
  qed
  then show ?thesis unfolding P_def F_def .
qed

text \<open>The outcome of the field checks does not look at the globals.\<close>

lemma field_checks_fst_globals:
  "fst (field_checks newDoc g) = fst (field_checks newDoc g')"
proof (cases "get_prop newDoc ''data''")
  case (Inl e)
  then show ?thesis by (simp add: field_checks_null)
next
  case (Inr d)
  then obtain tc tu where "get_prop newDoc ''time_created'' = Inr tc"
    "get_prop newDoc ''time_uploaded'' = Inr tu"
    by (meson get_prop_total)
  with Inr show ?thesis
    by (simp add: field_checks_unfold if_distrib [of fst]
        required_fst_globals [of _ _ _ _ g g'] check_order_fst_globals [of _ g g'])
qed




subsection \<open>Edits by non-administrators\<close>

text \<open>
  C1. A candidate document of type \<^verbatim>\<open>listener_info\<close>, an \<open>oldDoc\<close> that is present,
  a requester whose roles do not contain \<^verbatim>\<open>admin\<close>: the function throws
  \<^verbatim>\<open>{unauthorized: "Only administrators may edit listener_info docs."}\<close>, whatever
  else the document holds.
\<close>

theorem non_admin_edit_unauthorized:
  assumes "get_prop newDoc ''type'' = Inr (JStr ''listener_info'')"
    and "truthy oldDoc"
    and "get_prop userCtx ''roles'' = Inr (JArr roles)"
    and "JStr ''admin'' \<notin> set roles"
  shows "validate nts newDoc oldDoc userCtx g =
           (Inl (Unauthorized ''Only administrators may edit listener_info docs.''), g)"
proof -
  have "user_is userCtx ''admin'' = Inr False"
    using assms(3,4) by (simp add: user_is_def array_indexOf_nonneg)
  with assms(1,2) show ?thesis
    by (simp add: validate_past_gate [where t = "JStr ''listener_info''"])
qed

theorem non_admin_edit_unauthorized_witness:
  "get_prop bare_doc ''type'' = Inr (JStr ''listener_info'')
   \<and> truthy good_doc
   \<and> get_prop plain_user ''roles'' = Inr (JArr [JStr ''user''])
   \<and> JStr ''admin'' \<notin> set [JStr ''user'']
   \<and> validate example_nts bare_doc good_doc plain_user fresh_globals =
         (Inl (Unauthorized ''Only administrators may edit listener_info docs.''),
          fresh_globals)"
  using non_admin_edit_unauthorized
    [of bare_doc good_doc plain_user "[JStr ''user'']" example_nts fresh_globals]
  by (simp add: bare_doc_def good_doc_def plain_user_def)

subsection \<open>Documents of other types\<close>

text \<open>
  C2, as the code has it. The first line compares with \<^verbatim>\<open>!=\<close>, so the documents that
  pass untouched are those whose \<^verbatim>\<open>type\<close> differs from \<^verbatim>\<open>"listener_info"\<close> under
  the loose comparison: every absent, null, boolean or numeric \<^verbatim>\<open>type\<close> and every
  other string among them. For these the function returns, whatever \<open>oldDoc\<close>,
  \<open>userCtx\<close> and the other fields are.
\<close>

theorem other_type_accepted:
  assumes "get_prop newDoc ''type'' = Inr t"
    and "loose_ne_listener_info nts t = Inr True
         \<or> (t \<noteq> JStr ''listener_info'' \<and> (\<forall>xs. t \<noteq> JArr xs) \<and> (\<forall>kvs. t \<noteq> JObj kvs))"
  shows "validate nts newDoc oldDoc userCtx g = (Inr (), g)"
proof -
  have "loose_ne_listener_info nts t = Inr True"
    using assms(2) by (cases t) auto
  with assms(1) show ?thesis by (rule validate_gate_closed)
qed

theorem other_type_accepted_witness:
  "get_prop other_doc ''type'' = Inr (JStr ''other_type'')
   \<and> loose_ne_listener_info example_nts (JStr ''other_type'') = Inr True
   \<and> validate example_nts other_doc good_doc JUndefined fresh_globals
       = (Inr (), fresh_globals)"
  using other_type_accepted
    [of other_doc "JStr ''other_type''" example_nts good_doc JUndefined fresh_globals]
  by (simp add: other_doc_def)

text \<open>
  C2, as the claim has it ("not exactly"), fails: an array holding the one string
  \<^verbatim>\<open>"listener_info"\<close> is not that string, yet it is loosely equal to it, and the
  document is checked, and here rejected, as a \<^verbatim>\<open>listener_info\<close> document.
\<close>

theorem array_type_counterexample:
  "get_prop array_typed_doc ''type'' = Inr (JArr [JStr ''listener_info''])
   \<and> JArr [JStr ''listener_info''] \<noteq> JStr ''listener_info''
   \<and> validate example_nts array_typed_doc JNull plain_user fresh_globals =
       (Inl (Forbidden ''Must have a `time_created` field.''),
        \<lparr>message = JStr ''Must have a `time_created` field.''\<rparr>)"
  by (simp add: array_typed_doc_def fresh_globals_def run_defs)

subsection \<open>The order of the two times\<close>

text \<open>
  C3. For a \<^verbatim>\<open>listener_info\<close> document past the authorization check whose
  \<^verbatim>\<open>time_created\<close> and \<^verbatim>\<open>time_uploaded\<close> are truthy numbers \<open>a\<close> and \<open>b\<close>, the
  function throws \<^verbatim>\<open>{forbidden: "Document creation date is after upload date."}\<close>
  exactly when \<open>a \<ge> b\<close>; so an accepted write has \<open>a < b\<close>.
\<close>

theorem order_rejection_iff:
  assumes "get_prop newDoc ''type'' = Inr (JStr ''listener_info'')"
    and "truthy oldDoc \<longrightarrow> user_is userCtx ''admin'' = Inr True"
    and "get_prop newDoc ''time_created'' = Inr (JNum a)" and "a \<noteq> 0"
    and "get_prop newDoc ''time_uploaded'' = Inr (JNum b)" and "b \<noteq> 0"
  shows "(fst (validate nts newDoc oldDoc userCtx g) =
            Inl (Forbidden ''Document creation date is after upload date.'') \<longleftrightarrow> a \<ge> b)
         \<and> (fst (validate nts newDoc oldDoc userCtx g) = Inr () \<longrightarrow> a < b)"
proof -
  obtain d where d: "get_prop newDoc ''data'' = Inr d"
    using assms(1) by (meson get_prop_total)
  have v: "validate nts newDoc oldDoc userCtx g = field_checks newDoc g"
    using assms(1,2) by (simp add: validate_authorized [where t = "JStr ''listener_info''"])
  have "fst (field_checks newDoc g) =
          Inl (Forbidden ''Document creation date is after upload date.'') \<longleftrightarrow> a \<ge> b"
    using assms(3-6) d required_not_order
    by (simp add: field_checks_unfold check_order_numbers)
  moreover have "fst (field_checks newDoc g) = Inr () \<longrightarrow> a < b"
    using assms(3,5) by (auto simp: field_checks_accept)
  ultimately show ?thesis by (simp add: v)
qed

theorem order_rejection_iff_witness:
  "get_prop late_doc ''type'' = Inr (JStr ''listener_info'')
   \<and> user_is admin_user ''admin'' = Inr True
   \<and> get_prop late_doc ''time_created'' = Inr (JNum 200) \<and> (200 :: real) \<noteq> 0
   \<and> get_prop late_doc ''time_uploaded'' = Inr (JNum 100) \<and> (100 :: real) \<noteq> 0
   \<and> (100 :: real) \<le> 200
   \<and> fst (validate example_nts late_doc good_doc admin_user fresh_globals) =
        Inl (Forbidden ''Document creation date is after upload date.'')
   \<and> get_prop good_doc ''time_created'' = Inr (JNum 100)
   \<and> get_prop good_doc ''time_uploaded'' = Inr (JNum 200)
   \<and> fst (validate example_nts good_doc good_doc admin_user fresh_globals) = Inr ()
   \<and> (100 :: real) < 200"
  using order_rejection_iff
    [of late_doc good_doc admin_user 200 100 example_nts fresh_globals]
    order_rejection_iff
    [of good_doc good_doc admin_user 100 200 example_nts fresh_globals]
  by (simp add: late_doc_def good_doc_def admin_user_def fresh_globals_def run_defs)

subsection \<open>The helper \<^verbatim>\<open>required\<close>\<close>



subsection \<open>The first failing check decides\<close>

text \<open>
  C5. For a \<^verbatim>\<open>listener_info\<close> document past the authorization check the outcome is
  that of the first check that fails, in the order \<^verbatim>\<open>time_created\<close> (present, then
  a number), \<^verbatim>\<open>time_uploaded\<close> (present, then a number), the order of the two times,
  \<^verbatim>\<open>data\<close> (present, then an object), \<^verbatim>\<open>data.callsign\<close> (present, then a string);
  no branch looks at a field that a later check is about.
\<close>

theorem first_failing_check_decides:
  assumes "get_prop newDoc ''type'' = Inr t" and "loose_ne_listener_info nts t = Inr False"
    and "truthy oldDoc \<longrightarrow> user_is userCtx ''admin'' = Inr True"
    and "get_prop newDoc ''time_created'' = Inr tc"
    and "get_prop newDoc ''time_uploaded'' = Inr tu"
    and "get_prop newDoc ''data'' = Inr d"
  shows "fst (validate nts newDoc oldDoc userCtx g) =
     (if \<not> truthy tc then Inl (Forbidden ''Must have a `time_created` field.'')
      else if typeof tc \<noteq> ''number'' then
        Inl (Forbidden (''Wrong type for `time_created` ('' @ typeof tc
                         @ ''), should be number.''))
      else if \<not> truthy tu then Inl (Forbidden ''Must have a `time_uploaded` field.'')
      else if typeof tu \<noteq> ''number'' then
        Inl (Forbidden (''Wrong type for `time_uploaded` ('' @ typeof tu
                         @ ''), should be number.''))
      else if (\<exists>a b. tc = JNum a \<and> tu = JNum b \<and> a \<ge> b) then
        Inl (Forbidden ''Document creation date is after upload date.'')
      else if \<not> truthy d then Inl (Forbidden ''Must have a `data` field.'')
      else if typeof d \<noteq> ''object'' then
        Inl (Forbidden (''Wrong type for `data` ('' @ typeof d @ ''), should be object.''))
      else
        (case get_prop d ''callsign'' of
           Inl e \<Rightarrow> Inl e
         | Inr cs \<Rightarrow>
             if \<not> truthy cs then Inl (Forbidden ''Must have a `callsign` field.'')
             else if typeof cs \<noteq> ''string'' then
               Inl (Forbidden (''Wrong type for `callsign` ('' @ typeof cs
                                @ ''), should be string.''))
             else Inr ()))"
proof -
  have "validate nts newDoc oldDoc userCtx g = field_checks newDoc g"
    using assms(1-3) by (rule validate_authorized)
  then show ?thesis
    using field_checks_table [OF assms(4-6), of g] by simp
qed

theorem first_failing_check_decides_witness:
  "get_prop muddled_doc ''type'' = Inr (JStr ''listener_info'')
   \<and> loose_ne_listener_info example_nts (JStr ''listener_info'') = Inr False
   \<and> \<not> truthy JNull
   \<and> get_prop muddled_doc ''time_created'' = Inr (JStr ''noon'')
   \<and> get_prop muddled_doc ''time_uploaded'' = Inr (JNum 0)
   \<and> get_prop muddled_doc ''data'' = Inr (JNum 7)
   \<and> fst (validate example_nts muddled_doc JNull plain_user fresh_globals) =
       Inl (Forbidden ''Wrong type for `time_created` (string), should be number.'')"
  using first_failing_check_decides
    [of muddled_doc "JStr ''listener_info''" example_nts JNull plain_user
        "JStr ''noon''" "JNum 0" "JNum 7" fresh_globals]
  by (simp add: muddled_doc_def)

subsection \<open>Creations\<close>

text \<open>
  C6. With \<open>oldDoc\<close> absent the function never asks for the requester's roles: for a
  \<^verbatim>\<open>listener_info\<close> document the result is that of the field checks alone, and it is
  the same for every \<open>userCtx\<close>.
\<close>

theorem creation_skips_authorization:
  assumes "get_prop newDoc ''type'' = Inr t" and "loose_ne_listener_info nts t = Inr False"
    and "\<not> truthy oldDoc"
  shows "validate nts newDoc oldDoc userCtx g = field_checks newDoc g
         \<and> validate nts newDoc oldDoc userCtx' g = validate nts newDoc oldDoc userCtx g"
  using assms by (simp add: validate_authorized)

theorem creation_skips_authorization_witness:
  "get_prop good_doc ''type'' = Inr (JStr ''listener_info'')
   \<and> loose_ne_listener_info example_nts (JStr ''listener_info'') = Inr False
   \<and> \<not> truthy JNull
   \<and> validate example_nts good_doc JNull plain_user fresh_globals
       = field_checks good_doc fresh_globals
   \<and> validate example_nts good_doc JNull JUndefined fresh_globals
       = validate example_nts good_doc JNull plain_user fresh_globals"
  using creation_skips_authorization
    [of good_doc "JStr ''listener_info''" example_nts JNull plain_user fresh_globals
        JUndefined]
  by (simp add: good_doc_def)

subsection \<open>The two kinds of rejection\<close>



subsection \<open>No hidden state\<close>

text \<open>
  C8. The outcome of a call (return, or the kind and message of the rejection) is a
  function of \<open>newDoc\<close>, \<open>oldDoc\<close> and \<open>userCtx\<close> alone: whatever earlier calls
  have left in the globals, the same arguments give the same outcome.
\<close>

theorem validate_stateless:
  "fst (validate nts newDoc oldDoc userCtx g') = fst (validate nts newDoc oldDoc userCtx g)"
  using field_checks_fst_globals [of newDoc g' g]
  by (simp add: validate_def split: sum.splits bool.splits)

theorem validate_stateless_witness:
  "fst (validate example_nts bare_doc JNull plain_user
          (snd (validate example_nts bare_doc JNull plain_user fresh_globals)))
   = fst (validate example_nts bare_doc JNull plain_user fresh_globals)"
  using validate_stateless
    [of example_nts bare_doc JNull plain_user
        "snd (validate example_nts bare_doc JNull plain_user fresh_globals)" fresh_globals]
  by simp

subsection \<open>The global \<^verbatim>\<open>message\<close>\<close>

text \<open>
  C9 says that a call changes nothing outside itself. The code does: \<^verbatim>\<open>required\<close>
  assigns its text to \<^verbatim>\<open>message\<close>, which no \<^verbatim>\<open>var\<close> declares, before it throws.
  A creation of \<^verbatim>\<open>{"type": "listener_info"}\<close> from a state where \<^verbatim>\<open>message\<close> is
  undefined leaves the presence message in it.
\<close>

theorem message_global_written:
  "validate example_nts bare_doc JNull plain_user fresh_globals =
     (Inl (Forbidden ''Must have a `time_created` field.''),
      \<lparr>message = JStr ''Must have a `time_created` field.''\<rparr>)
   \<and> snd (validate example_nts bare_doc JNull plain_user fresh_globals) \<noteq> fresh_globals"
  by (simp add: bare_doc_def fresh_globals_def run_defs)

subsection \<open>Requester contexts without a usable \<^verbatim>\<open>roles\<close>\<close>

text \<open>
  C10, as the code has it. For an edit of a \<^verbatim>\<open>listener_info\<close> document the function
  ends in a \<^verbatim>\<open>TypeError\<close> of the language exactly when \<^verbatim>\<open>userCtx.roles\<close> cannot be
  read or is neither an array nor a string: a string has an \<^verbatim>\<open>indexOf\<close> of its own,
  which searches for a substring.
\<close>

theorem roles_type_error_iff:
  assumes "get_prop newDoc ''type'' = Inr t" and "loose_ne_listener_info nts t = Inr False"
    and "truthy oldDoc"
  shows "fst (validate nts newDoc oldDoc userCtx g) = Inl TypeError \<longleftrightarrow>
     (case get_prop userCtx ''roles'' of
        Inl e \<Rightarrow> True | Inr (JArr xs) \<Rightarrow> False | Inr (JStr s) \<Rightarrow> False | Inr r \<Rightarrow> True)"
proof -
  have fc: "fst (field_checks newDoc g) \<noteq> Inl TypeError"
    using field_checks_thrown [OF assms(1), of g TypeError] by auto
  show ?thesis
  proof (cases "user_is userCtx ''admin''")
    case (Inl e)
    then show ?thesis
      using assms(3) user_is_error [of userCtx "''admin''" e]
      by (simp add: validate_past_gate [OF assms(1,2)])
  next
    case (Inr b)
    then have "\<not> (case get_prop userCtx ''roles'' of
        Inl e \<Rightarrow> True | Inr (JArr xs) \<Rightarrow> False | Inr (JStr s) \<Rightarrow> False | Inr r \<Rightarrow> True)"
      using user_is_error [of userCtx "''admin''" TypeError] by simp
    then show ?thesis
      using assms(3) Inr fc
      by (cases b) (simp_all add: validate_past_gate [OF assms(1,2)])
  qed
qed

theorem roles_type_error_iff_witness:
  "get_prop good_doc ''type'' = Inr (JStr ''listener_info'')
   \<and> loose_ne_listener_info example_nts (JStr ''listener_info'') = Inr False
   \<and> truthy good_doc
   \<and> get_prop no_roles_user ''roles'' = Inr JUndefined
   \<and> fst (validate example_nts good_doc good_doc no_roles_user fresh_globals)
       = Inl TypeError"
  using roles_type_error_iff
    [of good_doc "JStr ''listener_info''" example_nts good_doc no_roles_user fresh_globals]
  by (simp add: good_doc_def no_roles_user_def)

text \<open>
  C10, as the claim has it ("not an array"), fails for a string: with
  \<^verbatim>\<open>roles = "admin"\<close> the edit of a valid document is accepted, and no error of the
  language arises.
\<close>

theorem string_roles_counterexample:
  "get_prop string_roles_user ''roles'' = Inr (JStr ''admin'')
   \<and> truthy good_doc
   \<and> validate example_nts good_doc good_doc string_roles_user fresh_globals
       = (Inr (), fresh_globals)"
  by (simp add: good_doc_def string_roles_user_def run_defs)

end
